theory Spec2Isabelle
  imports Main
begin

section \<open>The command-line entry point of textual-web (\<open>src/textual_web/cli.py\<close>)\<close>

text \<open>
  The module has one command, \<open>app\<close>. It is a straight-line sequence of calls into
  collaborators (the environment registry, the configuration loader, the Ganglion client,
  the identity generator, the event loop), with three early returns and two \<open>try\<close> blocks.
  The embedding keeps that shape: \<open>app\<close> is a function from the host the process runs in
  and the parsed options to the ordered list of calls made (the trace), the way the
  function is left (returned or raised) and the client object as it stands at the end.

  Only \<open>cli.py\<close> is given. Whatever a collaborator answers is therefore a field of the
  host record, and every statement below holds for all hosts unless it says otherwise.
\<close>

subsection \<open>Python values\<close>

text \<open>
  Exceptions. The two \<open>try\<close> blocks of \<open>app\<close> tell three classes apart:
  \<open>FileNotFoundError\<close>, \<open>ImportError\<close> and \<open>Exception\<close>, and an \<open>except\<close> clause catches
  the instances of the class it names and of every subclass. So the class of an
  exception is kept by its place in the hierarchy:
  \<^item> \<open>FileNotFoundError\<close> itself, or a class below it, named (\<open>SubFileNotFoundError\<close>);
  \<^item> \<open>ImportError\<close> itself, its builtin subclass \<open>ModuleNotFoundError\<close>, or any other
    class below \<open>ImportError\<close>, named (\<open>SubImportError\<close>, as \<open>zipimport.ZipImportError\<close>);
  \<^item> \<open>OtherException\<close>: a class below \<open>Exception\<close> that is below neither of the two,
    named (\<open>KeyError\<close>, \<open>RuntimeError\<close>, \<open>rich.errors.MarkupError\<close>);
  \<^item> \<open>NonException\<close>: a class below \<open>BaseException\<close> outside \<open>Exception\<close>
    (\<open>KeyboardInterrupt\<close>, \<open>SystemExit\<close>), which \<open>except Exception\<close> does not catch.
  No class is below both \<open>FileNotFoundError\<close> and \<open>ImportError\<close>: their instance layouts
  conflict.
\<close>

datatype exc_class =
    FileNotFoundError
  | SubFileNotFoundError string
  | ImportError
  | ModuleNotFoundError
  | SubImportError string
  | OtherException string
  | NonException string

datatype exn = Exn (exn_class: exc_class) (exn_repr: string)

fun isinstance_FileNotFoundError :: "exn \<Rightarrow> bool" where
  "isinstance_FileNotFoundError (Exn FileNotFoundError _) = True"
| "isinstance_FileNotFoundError (Exn (SubFileNotFoundError _) _) = True"
| "isinstance_FileNotFoundError _ = False"

fun isinstance_ImportError :: "exn \<Rightarrow> bool" where
  "isinstance_ImportError (Exn ImportError _) = True"
| "isinstance_ImportError (Exn ModuleNotFoundError _) = True"
| "isinstance_ImportError (Exn (SubImportError _) _) = True"
| "isinstance_ImportError _ = False"

fun isinstance_Exception :: "exn \<Rightarrow> bool" where
  "isinstance_Exception (Exn (NonException _) _) = False"
| "isinstance_Exception _ = True"

text \<open>\<open>x or d\<close> on an optional string: \<open>None\<close> and the empty string are both falsy.\<close>

definition str_or :: "string option \<Rightarrow> string \<Rightarrow> string" where
  "str_or x d = (case x of None \<Rightarrow> d | Some s \<Rightarrow> if s = [] then d else s)"

definition str_or_None :: "string option \<Rightarrow> string option" where
  "str_or_None x = (case x of None \<Rightarrow> None | Some s \<Rightarrow> if s = [] then None else Some s)"

text \<open>\<open>d.get(k, default)\<close> on a dictionary.\<close>

definition dict_get :: "('k \<rightharpoonup> 'v) \<Rightarrow> 'k \<Rightarrow> 'v \<Rightarrow> 'v" where
  "dict_get d k dflt = (case d k of None \<Rightarrow> dflt | Some v \<Rightarrow> v)"

text \<open>
  \<open>str.lower()\<close> and \<open>str.isupper\<close> on ASCII text: the letters \<open>A\<close> to \<open>Z\<close> (codes 65 to
  90) move to \<open>a\<close> to \<open>z\<close>, every other character stays. Identifiers are read as ASCII.
\<close>

definition is_upper :: "char \<Rightarrow> bool" where
  "is_upper c = (65 \<le> (of_char c :: nat) \<and> (of_char c :: nat) \<le> 90)"

definition lower_char :: "char \<Rightarrow> char" where
  "lower_char c = (if is_upper c then char_of ((of_char c :: nat) + 32) else c)"

definition lower :: "string \<Rightarrow> string" where
  "lower s = map lower_char s"

text \<open>
  \<open>sys.version_info >= (3, 11)\<close>: tuples compare lexicographically, and a longer tuple
  with an equal prefix is the greater one, so only \<open>(major, minor)\<close> matter.
\<close>

definition version_info_ge_3_11 :: "nat \<times> nat \<Rightarrow> bool" where
  "version_info_ge_3_11 v = (3 < fst v \<or> (fst v = 3 \<and> 11 \<le> snd v))"

subsection \<open>What a run of \<open>app\<close> does: the trace\<close>

text \<open>
  An f-string is kept as its parts, so that which value a message names can be read off
  without modelling \<open>repr\<close>: a literal piece, \<open>{s}\<close> of a string, \<open>{s!r}\<close> of a string,
  \<open>{e!r}\<close> of an environment descriptor or of an exception.
\<close>

datatype 'env fpart =
    Lit string
  | Str string
  | ReprStr string
  | ReprEnv 'env
  | ReprExn exn

text \<open>One constructor for each call of \<open>app\<close> that acts on something outside it.\<close>

datatype ('cfg, 'env) event =
    GetEnvironment string
  | SignUpApp_signup 'env
  | WelcomeApp_run
  | PrintDisclaimer
  | LogInfo "'env fpart list"
  | LogWarning string
  | LogCritical string
  | ErrorConsolePrint "'env fpart list"
  | LoadConfig string
  | DefaultConfig
  | RichPrint 'cfg
  | NewGanglionClient string 'cfg 'env "string option"
  | IdentityGenerate
  | AddTerminal string string string
  | AddApp string string string
  | ImportUvloop
  | UvloopInstall
  | AsyncioRun
  | RunnerEnter
  | RunnerRun
  | RunnerExit

datatype outcome = Returned | Raised exn | BadParameter string

record ('c, 'cfg, 'env) result =
  trace :: "('cfg, 'env) event list"
  outcome :: outcome
  client :: "'c option"

subsection \<open>The options and the host\<close>

text \<open>The parameters of \<open>app\<close>, as click passes them.\<close>

record invocation =
  config :: "string option"
  environment :: string
  terminal :: bool
  api_key :: "string option"
  signup :: bool
  "welcome" :: bool

text \<open>
  The host: the constants module, the process environment, the file system, the
  interpreter, and the collaborators \<open>app\<close> calls. \<open>'c\<close> is the state of a
  \<open>GanglionClient\<close> object; its methods take the object and return it updated.
  \<open>error_console_print\<close> is what \<open>error_console.print\<close> raises on a message
  (\<open>None\<close>: the line is printed): the console is a \<open>rich\<close> console with markup on, which
  reads square brackets in the text as tags and raises \<open>MarkupError\<close> on a closing tag
  that closes nothing.
  \<open>generate\<close> is what \<open>identity.generate()\<close> returns when \<open>app\<close> calls it,
  \<open>import_uvloop\<close> what \<open>import uvloop\<close> raises (\<open>None\<close>: the import succeeds),
  \<open>run\<close> what driving \<open>ganglion_client.run()\<close> to completion raises (\<open>None\<close>: it returns).
\<close>

record ('c, 'cfg, 'env) host =
  DEBUG :: bool
  ENVIRONMENT :: string
  API_KEY :: "string option"
  ENVIRONMENTS :: "(string \<times> 'env) list"
  get_environment :: "string \<Rightarrow> exn + 'env"
  version :: string
  environ :: "string \<rightharpoonup> string"
  absolute :: "string \<Rightarrow> string"
  load_config :: "string \<Rightarrow> exn + 'cfg"
  default_config :: 'cfg
  error_console_print :: "'env fpart list \<Rightarrow> exn option"
  GanglionClient :: "string \<Rightarrow> 'cfg \<Rightarrow> 'env \<Rightarrow> string option \<Rightarrow> 'c"
  add_terminal :: "'c \<Rightarrow> string \<Rightarrow> string \<Rightarrow> string \<Rightarrow> 'c"
  add_app :: "'c \<Rightarrow> string \<Rightarrow> string \<Rightarrow> string \<Rightarrow> 'c"
  app_count :: "'c \<Rightarrow> int"
  generate :: string
  import_uvloop :: "exn option"
  version_info :: "nat \<times> nat"
  run :: "'c \<Rightarrow> exn option"

subsection \<open>\<open>app\<close>, section by section\<close>

text \<open>Lines 111 to 118: the banner and the first log lines of a normal run.\<close>

definition announce :: "('c, 'cfg, 'env) host \<Rightarrow> 'env \<Rightarrow> ('cfg, 'env) event list" where
  "announce h env =
     [PrintDisclaimer,
      LogInfo [Lit ''version='', Lit [CHR 0x27], Str (version h), Lit [CHR 0x27]],
      LogInfo [Lit ''environment='', ReprEnv env]]
     @ (if DEBUG h then [LogWarning ''DEBUG env var is set; logs may be verbose!''] else [])"

text \<open>
  Lines 120 to 133: the configuration. The result is the events and either the way
  \<open>app\<close> is left (\<open>Inl\<close>) or the configuration to go on with (\<open>Inr\<close>). The \<open>except\<close>
  clauses are tried in the order of the source. Line 129 interpolates the path and the
  exception into the text it hands to \<open>error_console.print\<close> without escaping them; an
  exception raised by that call is raised inside the handler and leaves \<open>app\<close>.
\<close>

definition resolve_config ::
  "('c, 'cfg, 'env) host \<Rightarrow> string option \<Rightarrow> ('cfg, 'env) event list \<times> (outcome + 'cfg)" where
  "resolve_config h cfg_opt =
     (case cfg_opt of
        Some p \<Rightarrow>
          (let path = absolute h p;
               started = [LogInfo [Lit ''loading config from '', ReprStr path], LoadConfig path]
           in case load_config h path of
                Inr cfg \<Rightarrow> (started, Inr cfg)
              | Inl error \<Rightarrow>
                  if isinstance_FileNotFoundError error then
                    (started @ [LogCritical ''Config not found''], Inl Returned)
                  else if isinstance_Exception error then
                    (let message = [Lit ''Failed to load config from '', ReprStr path,
                                    Lit ''; '', ReprExn error]
                     in case error_console_print h message of
                          None \<Rightarrow> (started @ [ErrorConsolePrint message], Inl Returned)
                        | Some raised \<Rightarrow>
                            (started @ [ErrorConsolePrint message], Inl (Raised raised)))
                  else (started, Inl (Raised error)))
      | None \<Rightarrow>
          ([LogInfo [Lit ''No --config specified, using defaults.''], DefaultConfig],
           Inr (default_config h)))"

text \<open>Lines 144 to 147: the terminal session.\<close>

definition register_terminal ::
  "('c, 'cfg, 'env) host \<Rightarrow> bool \<Rightarrow> 'c \<Rightarrow> ('cfg, 'env) event list \<times> 'c" where
  "register_terminal h term c =
     (if term then
        (let shell = dict_get (environ h) ''SHELL'' ''bin/sh'';
             slug = lower (generate h)
         in ([IdentityGenerate, AddTerminal ''Terminal'' shell slug],
             add_terminal h c ''Terminal'' shell slug))
      else ([], c))"

text \<open>Lines 149 to 150: the default application. \<open>not n\<close> on an integer is \<open>n == 0\<close>.\<close>

definition seed_default ::
  "('c, 'cfg, 'env) host \<Rightarrow> 'c \<Rightarrow> ('cfg, 'env) event list \<times> 'c" where
  "seed_default h c =
     (if app_count h c = 0 then
        ([AddApp ''Welcome'' ''textual-web --welcome'' ''welcome''],
         add_app h c ''Welcome'' ''textual-web --welcome'' ''welcome'')
      else ([], c))"

text \<open>
  Lines 152 to 162: the event loop. The \<open>with\<close> block closes the runner whether
  \<open>runner.run\<close> returns or raises, so \<open>RunnerExit\<close> follows \<open>RunnerRun\<close> in both cases and
  the exception, if any, goes on.
\<close>

definition run_outcome :: "exn option \<Rightarrow> outcome" where
  "run_outcome r = (case r of None \<Rightarrow> Returned | Some e \<Rightarrow> Raised e)"

definition start_runtime ::
  "('c, 'cfg, 'env) host \<Rightarrow> 'c \<Rightarrow> ('cfg, 'env) event list \<times> outcome" where
  "start_runtime h c =
     (case import_uvloop h of
        Some error \<Rightarrow>
          if isinstance_ImportError error then
            ([ImportUvloop, AsyncioRun], run_outcome (run h c))
          else ([ImportUvloop], Raised error)
      | None \<Rightarrow>
          if version_info_ge_3_11 (version_info h) then
            ([ImportUvloop, RunnerEnter, RunnerRun, RunnerExit], run_outcome (run h c))
          else
            ([ImportUvloop, UvloopInstall, AsyncioRun], run_outcome (run h c)))"

text \<open>Lines 111 to 162 together: what \<open>app\<close> does once neither flag has returned.\<close>

definition normal_run ::
  "('c, 'cfg, 'env) host \<Rightarrow> invocation \<Rightarrow> 'env \<Rightarrow> ('c, 'cfg, 'env) result" where
  "normal_run h i env =
     (case resolve_config h (config i) of
        (loading, Inl out) \<Rightarrow>
          \<lparr>trace = announce h env @ loading, outcome = out, client = None\<rparr>
      | (loading, Inr cfg) \<Rightarrow>
          (let shown = (if DEBUG h then [RichPrint cfg] else []);
               config_path = str_or (config i) ''./'';
               key = str_or_None (api_key i);
               c0 = GanglionClient h config_path cfg env key;
               (ev_term, c1) = register_terminal h (terminal i) c0;
               (ev_seed, c2) = seed_default h c1;
               (ev_loop, out) = start_runtime h c2
           in \<lparr>trace = announce h env @ loading @ shown
                        @ [NewGanglionClient config_path cfg env key]
                        @ ev_term @ ev_seed @ ev_loop,
               outcome = out, client = Some c2\<rparr>))"

text \<open>Lines 97 to 109, then the rest: the function itself.\<close>

definition app :: "('c, 'cfg, 'env) host \<Rightarrow> invocation \<Rightarrow> ('c, 'cfg, 'env) result" where
  "app h i =
     (case get_environment h (environment i) of
        Inl error \<Rightarrow>
          \<lparr>trace = [GetEnvironment (environment i)], outcome = Raised error, client = None\<rparr>
      | Inr env \<Rightarrow>
          if signup i then
            \<lparr>trace = [GetEnvironment (environment i), SignUpApp_signup env],
             outcome = Returned, client = None\<rparr>
          else if welcome i then
            \<lparr>trace = [GetEnvironment (environment i), WelcomeApp_run],
             outcome = Returned, client = None\<rparr>
          else
            (let r = normal_run h i env
             in r\<lparr>trace := GetEnvironment (environment i) # trace r\<rparr>))"

subsection \<open>Program points of a normal run\<close>

text \<open>
  The state of \<open>ganglion_client\<close> at three points of \<open>app\<close>: as line 140 builds it,
  after line 147, and after line 150 (the object \<open>run()\<close> is called on).
\<close>

definition client_built :: "('c, 'cfg, 'env) host \<Rightarrow> invocation \<Rightarrow> 'env \<Rightarrow> 'cfg \<Rightarrow> 'c" where
  "client_built h i env cfg =
     GanglionClient h (str_or (config i) ''./'') cfg env (str_or_None (api_key i))"

definition client_after_terminal ::
  "('c, 'cfg, 'env) host \<Rightarrow> invocation \<Rightarrow> 'env \<Rightarrow> 'cfg \<Rightarrow> 'c" where
  "client_after_terminal h i env cfg =
     snd (register_terminal h (terminal i) (client_built h i env cfg))"

definition client_seeded :: "('c, 'cfg, 'env) host \<Rightarrow> invocation \<Rightarrow> 'env \<Rightarrow> 'cfg \<Rightarrow> 'c" where
  "client_seeded h i env cfg = snd (seed_default h (client_after_terminal h i env cfg))"

text \<open>
  A run gets as far as line 140 when the environment resolves to \<open>env\<close>, neither
  \<open>--signup\<close> nor \<open>--welcome\<close> is given, and the configuration resolves to \<open>cfg\<close>.
\<close>

definition reaches_client ::
  "('c, 'cfg, 'env) host \<Rightarrow> invocation \<Rightarrow> 'env \<Rightarrow> 'cfg \<Rightarrow> bool" where
  "reaches_client h i env cfg =
     (get_environment h (environment i) = Inr env \<and> \<not> signup i \<and> \<not> welcome i
      \<and> snd (resolve_config h (config i)) = Inr cfg)"

subsection \<open>Kinds of calls\<close>

fun is_signup_call :: "('cfg, 'env) event \<Rightarrow> bool" where
  "is_signup_call (SignUpApp_signup _) = True"
| "is_signup_call _ = False"

fun is_welcome_call :: "('cfg, 'env) event \<Rightarrow> bool" where
  "is_welcome_call WelcomeApp_run = True"
| "is_welcome_call _ = False"

text \<open>Everything \<open>app\<close> does from line 111 on.\<close>

fun is_normal_run_call :: "('cfg, 'env) event \<Rightarrow> bool" where
  "is_normal_run_call (GetEnvironment _) = False"
| "is_normal_run_call (SignUpApp_signup _) = False"
| "is_normal_run_call WelcomeApp_run = False"
| "is_normal_run_call _ = True"

fun is_client_call :: "('cfg, 'env) event \<Rightarrow> bool" where
  "is_client_call (NewGanglionClient _ _ _ _) = True"
| "is_client_call _ = False"

fun is_AddTerminal :: "('cfg, 'env) event \<Rightarrow> bool" where
  "is_AddTerminal (AddTerminal _ _ _) = True"
| "is_AddTerminal _ = False"

fun is_AddApp :: "('cfg, 'env) event \<Rightarrow> bool" where
  "is_AddApp (AddApp _ _ _) = True"
| "is_AddApp _ = False"

fun is_session_call :: "('cfg, 'env) event \<Rightarrow> bool" where
  "is_session_call (AddTerminal _ _ _) = True"
| "is_session_call (AddApp _ _ _) = True"
| "is_session_call _ = False"

fun is_resolution_call :: "('cfg, 'env) event \<Rightarrow> bool" where
  "is_resolution_call (GetEnvironment _) = True"
| "is_resolution_call _ = False"

fun is_generate_call :: "('cfg, 'env) event \<Rightarrow> bool" where
  "is_generate_call IdentityGenerate = True"
| "is_generate_call _ = False"

text \<open>The shell commands of the terminals registered, in order.\<close>

fun shell_commands :: "('cfg, 'env) event list \<Rightarrow> string list" where
  "shell_commands [] = []"
| "shell_commands (AddTerminal name shell slug # es) = shell # shell_commands es"
| "shell_commands (e # es) = shell_commands es"

text \<open>\<open>posixpath.isabs\<close>: a path is absolute when it starts with a slash.\<close>

definition isabs :: "string \<Rightarrow> bool" where
  "isabs p = (case p of [] \<Rightarrow> False | c # cs \<Rightarrow> c = CHR ''/'')"

fun is_runtime_call :: "('cfg, 'env) event \<Rightarrow> bool" where
  "is_runtime_call ImportUvloop = True"
| "is_runtime_call UvloopInstall = True"
| "is_runtime_call AsyncioRun = True"
| "is_runtime_call RunnerEnter = True"
| "is_runtime_call RunnerRun = True"
| "is_runtime_call RunnerExit = True"
| "is_runtime_call _ = False"

text \<open>The two calls that drive \<open>ganglion_client.run()\<close>.\<close>

fun drives_run :: "('cfg, 'env) event \<Rightarrow> bool" where
  "drives_run AsyncioRun = True"
| "drives_run RunnerRun = True"
| "drives_run _ = False"

subsection \<open>The option layer (lines 60 to 75)\<close>

text \<open>
  \<open>click.Choice(choices)\<close> converts a value by looking it up among the choices (the
  comparison is case sensitive, as \<open>case_sensitive\<close> is left at its default) and fails
  with a \<open>BadParameter\<close> usage error otherwise. click converts the default of an option
  through its type like a value given on the command line.
\<close>

definition click_Choice :: "string list \<Rightarrow> string \<Rightarrow> string + string" where
  "click_Choice choices v = (if v \<in> set choices then Inr v else Inl v)"

text \<open>The options as found on the command line; \<open>None\<close> is an option not given.\<close>

record command_line =
  opt_config :: "string option"
  opt_environment :: "string option"
  opt_api_key :: "string option"
  opt_terminal :: bool
  opt_signup :: bool
  opt_welcome :: bool

text \<open>
  The command that the decorators build around \<open>app\<close>: defaults are filled in, the
  environment name goes through \<open>click.Choice(list(ENVIRONMENTS))\<close>, and only then is
  \<open>app\<close> called. \<open>list(d)\<close> of a dictionary is its keys.
\<close>

definition requested_environment :: "('c, 'cfg, 'env) host \<Rightarrow> command_line \<Rightarrow> string" where
  "requested_environment h a =
     (case opt_environment a of None \<Rightarrow> ENVIRONMENT h | Some v \<Rightarrow> v)"

definition app_command ::
  "('c, 'cfg, 'env) host \<Rightarrow> command_line \<Rightarrow> ('c, 'cfg, 'env) result" where
  "app_command h a =
     (case click_Choice (map fst (ENVIRONMENTS h)) (requested_environment h a) of
        Inl v \<Rightarrow> \<lparr>trace = [], outcome = BadParameter v, client = None\<rparr>
      | Inr v \<Rightarrow>
          app h \<lparr>config = opt_config a, environment = v, terminal = opt_terminal a,
                 api_key = (case opt_api_key a of None \<Rightarrow> API_KEY h | Some k \<Rightarrow> Some k),
                 signup = opt_signup a, welcome = opt_welcome a\<rparr>)"

subsection \<open>The collaborators that are not in \<open>cli.py\<close>, after the specification\<close>

text \<open>
  Modelled from the spec: \<open>environment.get_environment\<close> is not among the sources. The
  specification (4.1) has \<open>resolve(name)\<close> return the descriptor the registry holds for a
  recognised name, without side effects, and fail fatally on any other name. The
  registry is the dictionary \<open>ENVIRONMENTS\<close>, here its items in order; the failure of a
  dictionary lookup is a \<open>KeyError\<close>.
\<close>

definition resolve :: "(string \<times> 'env) list \<Rightarrow> string \<Rightarrow> exn + 'env" where
  "resolve registry name =
     (case map_of registry name of
        None \<Rightarrow> Inl (Exn (OtherException ''KeyError'') name)
      | Some descriptor \<Rightarrow> Inr descriptor)"

text \<open>
  Modelled from the spec: the class \<open>GanglionClient\<close> is not among the sources. The
  specification (3 and 4.3) has the orchestrator own an ordered collection of session
  registrations, each an interactive terminal or an application with a display name, a
  command and an identifier; \<open>registerTerminal\<close> and \<open>registerApplication\<close> append one,
  and \<open>pendingCount\<close> is the number of sessions registered so far.
\<close>

datatype session_kind = InteractiveTerminal | Application

record session =
  kind :: session_kind
  label :: string
  command :: string
  ident :: string

definition registerTerminal :: "session list \<Rightarrow> string \<Rightarrow> string \<Rightarrow> string \<Rightarrow> session list" where
  "registerTerminal c name shell slug =
     c @ [\<lparr>kind = InteractiveTerminal, label = name, command = shell, ident = slug\<rparr>]"

definition registerApplication :: "session list \<Rightarrow> string \<Rightarrow> string \<Rightarrow> string \<Rightarrow> session list" where
  "registerApplication c name launch slug =
     c @ [\<lparr>kind = Application, label = name, command = launch, ident = slug\<rparr>]"

definition pendingCount :: "session list \<Rightarrow> int" where
  "pendingCount c = int (length c)"

subsection \<open>Hosts to run the model on\<close>

text \<open>
  A host around a given client: production settings, a shell in the environment, no
  \<open>uvloop\<close>, Python 3.12, and under \<open>/srv\<close> one good configuration file and two
  that do not parse, \<open>broken.toml\<close> and \<open>conf[/b].toml\<close>. The error console prints every
  message but the one that names the latter, where the path brings the closing tag
  \<open>[/b]\<close> into the text.
\<close>

definition host_around ::
  "(string \<Rightarrow> string \<Rightarrow> string \<Rightarrow> string option \<Rightarrow> 'c) \<Rightarrow>
   ('c \<Rightarrow> string \<Rightarrow> string \<Rightarrow> string \<Rightarrow> 'c) \<Rightarrow>
   ('c \<Rightarrow> string \<Rightarrow> string \<Rightarrow> string \<Rightarrow> 'c) \<Rightarrow>
   ('c \<Rightarrow> int) \<Rightarrow> ('c, string, string) host" where
  "host_around new add_t add_a count =
     \<lparr>DEBUG = False, ENVIRONMENT = ''prod'', API_KEY = None,
      ENVIRONMENTS = [(''prod'', ''textual-web.io''), (''local'', ''127.0.0.1''),
                      (''dev'', ''textual-web-dev.io'')],
      get_environment = (\<lambda>name.
         if name = ''prod'' then Inr ''textual-web.io''
         else if name = ''local'' then Inr ''127.0.0.1''
         else if name = ''dev'' then Inr ''textual-web-dev.io''
         else Inl (Exn (OtherException ''KeyError'') name)),
      version = ''0.4.2'',
      environ = [''SHELL'' \<mapsto> ''/bin/zsh''],
      absolute = (\<lambda>p. if p \<noteq> [] \<and> hd p = CHR ''/'' then p else ''/srv/'' @ p),
      load_config = (\<lambda>p.
         if p = ''/srv/ganglion.toml'' then Inr ''ganglion''
         else if p = ''/srv/broken.toml'' \<or> p = ''/srv/conf[/b].toml'' then
           Inl (Exn (OtherException ''TOMLDecodeError'') ''Invalid value'')
         else Inl (Exn FileNotFoundError p)),
      default_config = ''defaults'',
      error_console_print = (\<lambda>message.
         if ReprStr ''/srv/conf[/b].toml'' \<in> set message then
           Some (Exn (OtherException ''MarkupError'')
                   ''closing tag [/b] at position 37 does not match any open tag'')
         else None),
      GanglionClient = new, add_terminal = add_t, add_app = add_a, app_count = count,
      generate = ''7KQ2M0XW9RTZ'',
      import_uvloop = Some (Exn ModuleNotFoundError ''uvloop''),
      version_info = (3, 12),
      run = (\<lambda>c. None)\<rparr>"

text \<open>A client that keeps the slugs it was given, in order, and counts them.\<close>

definition demo_host :: "(string list, string, string) host" where
  "demo_host =
     host_around (\<lambda>path cfg env key. []) (\<lambda>c name shell slug. c @ [slug])
       (\<lambda>c name launch slug. c @ [slug]) (\<lambda>c. int (length c))"

text \<open>The client of the specification, with what the configuration names as sessions.\<close>

definition spec_host :: "(session list, string, string) host" where
  "spec_host =
     host_around
       (\<lambda>path cfg env key.
          if cfg = ''ganglion'' then
            [\<lparr>kind = Application, label = ''Calculator'', command = ''python calc.py'',
              ident = ''calc''\<rparr>]
          else [])
       registerTerminal registerApplication pendingCount"

text \<open>The same host with the resolver of the specification over its registry.\<close>

definition registry_host :: "(session list, string, string) host" where
  "registry_host = spec_host\<lparr>get_environment := resolve (ENVIRONMENTS spec_host)\<rparr>"

definition demo_command_line :: command_line where
  "demo_command_line =
     \<lparr>opt_config = None, opt_environment = None, opt_api_key = None, opt_terminal = False,
      opt_signup = False, opt_welcome = False\<rparr>"

definition demo_invocation :: invocation where
  "demo_invocation =
     \<lparr>config = None, environment = ''prod'', terminal = False, api_key = None,
      signup = False, welcome = False\<rparr>"

subsection \<open>The sections, one kind of call at a time\<close>

lemma announce_calls:
  "filter is_signup_call (announce h env) = []"
  "filter is_welcome_call (announce h env) = []"
  "filter is_client_call (announce h env) = []"
  "filter is_AddTerminal (announce h env) = []"
  "filter is_AddApp (announce h env) = []"
  "filter is_runtime_call (announce h env) = []"
  "filter drives_run (announce h env) = []"
  "filter is_session_call (announce h env) = []"
  "filter is_resolution_call (announce h env) = []"
  "filter is_generate_call (announce h env) = []"
  "shell_commands (announce h env @ es) = shell_commands es"
  by (simp_all add: announce_def)

lemma resolve_config_calls:
  "filter is_signup_call (fst (resolve_config h c)) = []"
  "filter is_welcome_call (fst (resolve_config h c)) = []"
  "filter is_client_call (fst (resolve_config h c)) = []"
  "filter is_AddTerminal (fst (resolve_config h c)) = []"
  "filter is_AddApp (fst (resolve_config h c)) = []"
  "filter is_runtime_call (fst (resolve_config h c)) = []"
  "filter drives_run (fst (resolve_config h c)) = []"
  "filter is_session_call (fst (resolve_config h c)) = []"
  "filter is_resolution_call (fst (resolve_config h c)) = []"
  "filter is_generate_call (fst (resolve_config h c)) = []"
  "shell_commands (fst (resolve_config h c) @ es) = shell_commands es"
  by (simp_all add: resolve_config_def Let_def split: option.split sum.split)

lemma register_terminal_calls:
  "filter is_signup_call (fst (register_terminal h t c)) = []"
  "filter is_welcome_call (fst (register_terminal h t c)) = []"
  "filter is_client_call (fst (register_terminal h t c)) = []"
  "filter is_AddApp (fst (register_terminal h t c)) = []"
  "filter is_runtime_call (fst (register_terminal h t c)) = []"
  "filter drives_run (fst (register_terminal h t c)) = []"
  "filter is_resolution_call (fst (register_terminal h t c)) = []"
  by (simp_all add: register_terminal_def Let_def)

lemma seed_default_calls:
  "filter is_signup_call (fst (seed_default h c)) = []"
  "filter is_welcome_call (fst (seed_default h c)) = []"
  "filter is_client_call (fst (seed_default h c)) = []"
  "filter is_AddTerminal (fst (seed_default h c)) = []"
  "filter is_runtime_call (fst (seed_default h c)) = []"
  "filter drives_run (fst (seed_default h c)) = []"
  "filter is_resolution_call (fst (seed_default h c)) = []"
  "filter is_generate_call (fst (seed_default h c)) = []"
  "shell_commands (fst (seed_default h c) @ es) = shell_commands es"
  by (simp_all add: seed_default_def)

lemma start_runtime_calls:
  "filter is_signup_call (fst (start_runtime h c)) = []"
  "filter is_welcome_call (fst (start_runtime h c)) = []"
  "filter is_client_call (fst (start_runtime h c)) = []"
  "filter is_AddTerminal (fst (start_runtime h c)) = []"
  "filter is_AddApp (fst (start_runtime h c)) = []"
  "filter is_runtime_call (fst (start_runtime h c)) = fst (start_runtime h c)"
  "filter is_session_call (fst (start_runtime h c)) = []"
  "filter is_resolution_call (fst (start_runtime h c)) = []"
  "filter is_generate_call (fst (start_runtime h c)) = []"
  "shell_commands (fst (start_runtime h c)) = []"
  by (simp_all add: start_runtime_def split: option.split)

lemmas section_calls = announce_calls resolve_config_calls register_terminal_calls
  seed_default_calls start_runtime_calls

subsection \<open>A normal run, laid out\<close>

lemma trace_normal_run:
  "trace (normal_run h i env) =
     announce h env @ fst (resolve_config h (config i)) @
     (case snd (resolve_config h (config i)) of
        Inl out \<Rightarrow> []
      | Inr cfg \<Rightarrow>
          (if DEBUG h then [RichPrint cfg] else [])
          @ [NewGanglionClient (str_or (config i) ''./'') cfg env (str_or_None (api_key i))]
          @ fst (register_terminal h (terminal i) (client_built h i env cfg))
          @ fst (seed_default h (client_after_terminal h i env cfg))
          @ fst (start_runtime h (client_seeded h i env cfg)))"
  by (simp add: normal_run_def client_built_def client_after_terminal_def client_seeded_def
      Let_def split: prod.split sum.split)

lemma outcome_normal_run:
  "outcome (normal_run h i env) =
     (case snd (resolve_config h (config i)) of
        Inl out \<Rightarrow> out
      | Inr cfg \<Rightarrow> snd (start_runtime h (client_seeded h i env cfg)))"
  by (simp add: normal_run_def client_built_def client_after_terminal_def client_seeded_def
      Let_def split: prod.split sum.split)

lemma client_normal_run:
  "client (normal_run h i env) =
     (case snd (resolve_config h (config i)) of
        Inl out \<Rightarrow> None
      | Inr cfg \<Rightarrow> Some (client_seeded h i env cfg))"
  by (simp add: normal_run_def client_built_def client_after_terminal_def client_seeded_def
      Let_def split: prod.split sum.split)

text \<open>The same for \<open>app\<close>, on a run that gets to line 140.\<close>

lemma app_reaches_client:
  assumes "reaches_client h i env cfg"
  shows "trace (app h i) =
           GetEnvironment (environment i) # announce h env @ fst (resolve_config h (config i))
           @ (if DEBUG h then [RichPrint cfg] else [])
           @ [NewGanglionClient (str_or (config i) ''./'') cfg env (str_or_None (api_key i))]
           @ fst (register_terminal h (terminal i) (client_built h i env cfg))
           @ fst (seed_default h (client_after_terminal h i env cfg))
           @ fst (start_runtime h (client_seeded h i env cfg))"
    and "outcome (app h i) = snd (start_runtime h (client_seeded h i env cfg))"
    and "client (app h i) = Some (client_seeded h i env cfg)"
  using assms
  by (simp_all add: reaches_client_def app_def Let_def trace_normal_run outcome_normal_run
      client_normal_run)

lemma normal_run_no_signup: "filter is_signup_call (trace (normal_run h i env)) = []"
  by (simp add: trace_normal_run section_calls split: sum.split)

lemma normal_run_no_welcome: "filter is_welcome_call (trace (normal_run h i env)) = []"
  by (simp add: trace_normal_run section_calls split: sum.split)

lemma normal_run_nonempty: "\<exists>e \<in> set (trace (normal_run h i env)). is_normal_run_call e"
  by (simp add: trace_normal_run announce_def)

subsection \<open>The hosts at work\<close>

lemma demo_slug: "lower ''7KQ2M0XW9RTZ'' = ''7kq2m0xw9rtz''"
  by code_simp

lemmas run_demo = demo_host_def spec_host_def host_around_def demo_invocation_def
  reaches_client_def resolve_config_def register_terminal_def seed_default_def
  client_built_def client_after_terminal_def client_seeded_def
  dict_get_def str_or_def str_or_None_def Let_def demo_slug

lemma demo_environment:
  "get_environment demo_host (environment demo_invocation) = Inr ''textual-web.io''"
  "get_environment demo_host (environment (demo_invocation\<lparr>signup := True, welcome := True\<rparr>))
     = Inr ''textual-web.io''"
  "get_environment demo_host (environment (demo_invocation\<lparr>welcome := True\<rparr>))
     = Inr ''textual-web.io''"
  by (simp_all add: run_demo)

lemma demo_reaches:
  "reaches_client demo_host demo_invocation ''textual-web.io'' ''defaults''"
  "reaches_client demo_host (demo_invocation\<lparr>terminal := True\<rparr>) ''textual-web.io'' ''defaults''"
  by (simp_all add: run_demo)

lemma demo_clients:
  "client_after_terminal demo_host demo_invocation ''textual-web.io'' ''defaults'' = []"
  "client_after_terminal demo_host (demo_invocation\<lparr>terminal := True\<rparr>)
     ''textual-web.io'' ''defaults'' = [''7kq2m0xw9rtz'']"
  "app_count demo_host [] = 0"
  "app_count demo_host [''7kq2m0xw9rtz''] = 1"
  "add_app demo_host [] ''Welcome'' ''textual-web --welcome'' ''welcome'' = [''welcome'']"
  by (simp_all add: run_demo)

section \<open>The claims\<close>

text \<open>
  C1. The three ways into \<open>app\<close> exclude one another and are tried in the order signup,
  welcome, normal run. With \<open>--signup\<close> the run is the signup call and a return, whatever
  \<open>--welcome\<close> says; otherwise with \<open>--welcome\<close> it is the welcome call and a return, so
  that nothing of a normal run (configuration, client, sessions, event loop) happens;
  only without both flags does the normal run take place. Line 97 resolves the
  environment before the flags are looked at; the statement is about the runs where
  that call returns a descriptor.
\<close>

theorem app_branch_priority:
  assumes "get_environment h (environment i) = Inr env"
  shows "(signup i \<longrightarrow>
           app h i = \<lparr>trace = [GetEnvironment (environment i), SignUpApp_signup env],
                      outcome = Returned, client = None\<rparr>)
       \<and> (\<not> signup i \<and> welcome i \<longrightarrow>
           app h i = \<lparr>trace = [GetEnvironment (environment i), WelcomeApp_run],
                      outcome = Returned, client = None\<rparr>)
       \<and> (\<not> signup i \<and> \<not> welcome i \<longrightarrow>
           app h i = (normal_run h i env)
                       \<lparr>trace := GetEnvironment (environment i) # trace (normal_run h i env)\<rparr>)
       \<and> filter is_signup_call (trace (app h i)) = (if signup i then [SignUpApp_signup env] else [])
       \<and> filter is_welcome_call (trace (app h i))
           = (if \<not> signup i \<and> welcome i then [WelcomeApp_run] else [])
       \<and> ((\<exists>e \<in> set (trace (app h i)). is_normal_run_call e) \<longleftrightarrow> \<not> signup i \<and> \<not> welcome i)"
  using assms normal_run_no_signup [of h i env] normal_run_no_welcome [of h i env]
    normal_run_nonempty [of h i env]
  by (simp add: app_def Let_def)

theorem app_branch_priority_witness:
  "get_environment demo_host (environment (demo_invocation\<lparr>signup := True, welcome := True\<rparr>))
     = Inr ''textual-web.io''
   \<and> app demo_host (demo_invocation\<lparr>signup := True, welcome := True\<rparr>)
     = \<lparr>trace = [GetEnvironment ''prod'', SignUpApp_signup ''textual-web.io''],
        outcome = Returned, client = None\<rparr>
   \<and> app demo_host (demo_invocation\<lparr>welcome := True\<rparr>)
     = \<lparr>trace = [GetEnvironment ''prod'', WelcomeApp_run], outcome = Returned, client = None\<rparr>
   \<and> filter is_signup_call (trace (app demo_host demo_invocation)) = []
   \<and> filter is_welcome_call (trace (app demo_host demo_invocation)) = []"
proof -
  have first: "app demo_host (demo_invocation\<lparr>signup := True, welcome := True\<rparr>)
      = \<lparr>trace = [GetEnvironment ''prod'', SignUpApp_signup ''textual-web.io''],
         outcome = Returned, client = None\<rparr>"
    using app_branch_priority [OF demo_environment(2), THEN conjunct1]
    by (simp add: demo_invocation_def)
  have second: "app demo_host (demo_invocation\<lparr>welcome := True\<rparr>)
      = \<lparr>trace = [GetEnvironment ''prod'', WelcomeApp_run], outcome = Returned, client = None\<rparr>"
    using app_branch_priority [OF demo_environment(3), THEN conjunct2, THEN conjunct1]
    by (simp add: demo_invocation_def)
  have third: "filter is_signup_call (trace (app demo_host demo_invocation)) = []"
    using app_branch_priority [OF demo_environment(1), THEN conjunct2, THEN conjunct2,
        THEN conjunct2, THEN conjunct1]
    by (simp add: demo_invocation_def)
  have fourth: "filter is_welcome_call (trace (app demo_host demo_invocation)) = []"
    using app_branch_priority [OF demo_environment(1), THEN conjunct2, THEN conjunct2,
        THEN conjunct2, THEN conjunct2, THEN conjunct1]
    by (simp add: demo_invocation_def)
  show ?thesis
    using demo_environment(2) first second third fourth by simp
qed

text \<open>
  C2. On a normal run that has built its client, line 149 reads \<open>app_count\<close> of the
  client as lines 144 to 147 left it. If the count is zero, \<open>add_app\<close> is called exactly
  once, for the default application, and the client handed to \<open>run()\<close> is the result of
  that call; if it is not zero, \<open>add_app\<close> is not called and the client stays as it was.
\<close>

theorem default_seeding_follows_count:
  assumes "reaches_client h i env cfg"
  shows "(app_count h (client_after_terminal h i env cfg) = 0 \<longrightarrow>
            filter is_AddApp (trace (app h i))
              = [AddApp ''Welcome'' ''textual-web --welcome'' ''welcome'']
          \<and> client (app h i)
              = Some (add_app h (client_after_terminal h i env cfg)
                        ''Welcome'' ''textual-web --welcome'' ''welcome''))
       \<and> (app_count h (client_after_terminal h i env cfg) \<noteq> 0 \<longrightarrow>
            filter is_AddApp (trace (app h i)) = []
          \<and> client (app h i) = Some (client_after_terminal h i env cfg))"
  by (simp add: app_reaches_client [OF assms] section_calls client_seeded_def seed_default_def)

theorem default_seeding_follows_count_witness:
  "reaches_client demo_host demo_invocation ''textual-web.io'' ''defaults''
   \<and> app_count demo_host (client_after_terminal demo_host demo_invocation
         ''textual-web.io'' ''defaults'') = 0
   \<and> filter is_AddApp (trace (app demo_host demo_invocation))
       = [AddApp ''Welcome'' ''textual-web --welcome'' ''welcome'']
   \<and> client (app demo_host demo_invocation) = Some [''welcome'']
   \<and> reaches_client demo_host (demo_invocation\<lparr>terminal := True\<rparr>) ''textual-web.io'' ''defaults''
   \<and> app_count demo_host (client_after_terminal demo_host (demo_invocation\<lparr>terminal := True\<rparr>)
         ''textual-web.io'' ''defaults'') = 1
   \<and> filter is_AddApp (trace (app demo_host (demo_invocation\<lparr>terminal := True\<rparr>))) = []
   \<and> client (app demo_host (demo_invocation\<lparr>terminal := True\<rparr>)) = Some [''7kq2m0xw9rtz'']"
proof -
  have seeded: "filter is_AddApp (trace (app demo_host demo_invocation))
        = [AddApp ''Welcome'' ''textual-web --welcome'' ''welcome'']
      \<and> client (app demo_host demo_invocation) = Some [''welcome'']"
    using default_seeding_follows_count [OF demo_reaches(1)] by (simp add: demo_clients)
  have kept: "filter is_AddApp (trace (app demo_host (demo_invocation\<lparr>terminal := True\<rparr>))) = []
      \<and> client (app demo_host (demo_invocation\<lparr>terminal := True\<rparr>)) = Some [''7kq2m0xw9rtz'']"
    using default_seeding_follows_count [OF demo_reaches(2)] by (simp add: demo_clients)
  show ?thesis
    using demo_reaches seeded kept by (simp add: demo_clients)
qed

lemma spec_reaches:
  "reaches_client spec_host (demo_invocation\<lparr>terminal := True\<rparr>) ''textual-web.io'' ''defaults''"
  by (simp add: run_demo)

lemma spec_client_api:
  "add_terminal spec_host = registerTerminal"
  "app_count spec_host = pendingCount"
  by (simp_all add: spec_host_def host_around_def)

lemma spec_clients:
  "client_built spec_host (demo_invocation\<lparr>terminal := True\<rparr>) ''textual-web.io'' ''defaults'' = []"
  "environ spec_host ''SHELL'' = Some ''/bin/zsh''"
  "generate spec_host = ''7KQ2M0XW9RTZ''"
  by (simp_all add: run_demo)

text \<open>
  C3. With \<open>--terminal\<close>, on a normal run that has built its client, and with the client
  of the specification (where registering a terminal appends a session and the count is
  the number of sessions): after line 147 the count is at least 1, so line 150 is not
  reached, and the client handed to \<open>run()\<close> is the one built plus the terminal session.
\<close>

theorem terminal_session_precludes_default:
  assumes "reaches_client h i env cfg" and "terminal i"
    and "add_terminal h = registerTerminal" and "app_count h = pendingCount"
  shows "1 \<le> app_count h (client_after_terminal h i env cfg)
       \<and> filter is_AddApp (trace (app h i)) = []
       \<and> client (app h i) =
           Some (client_built h i env cfg @
             [\<lparr>kind = InteractiveTerminal, label = ''Terminal'',
               command = dict_get (environ h) ''SHELL'' ''bin/sh'',
               ident = lower (generate h)\<rparr>])"
proof -
  have after: "client_after_terminal h i env cfg =
      client_built h i env cfg @
        [\<lparr>kind = InteractiveTerminal, label = ''Terminal'',
          command = dict_get (environ h) ''SHELL'' ''bin/sh'', ident = lower (generate h)\<rparr>]"
    using assms(2,3)
    by (simp add: client_after_terminal_def register_terminal_def registerTerminal_def Let_def)
  have count: "1 \<le> app_count h (client_after_terminal h i env cfg)"
    by (simp add: after assms(4) pendingCount_def)
  then have unseeded: "seed_default h (client_after_terminal h i env cfg)
      = ([], client_after_terminal h i env cfg)"
    by (simp add: seed_default_def)
  have none: "filter is_AddApp (trace (app h i)) = []"
    by (simp add: app_reaches_client [OF assms(1)] section_calls unseeded)
  have final: "client (app h i) = Some (client_after_terminal h i env cfg)"
    by (simp add: app_reaches_client [OF assms(1)] client_seeded_def unseeded)
  show ?thesis
    using count none final after by simp
qed

theorem terminal_session_precludes_default_witness:
  "reaches_client spec_host (demo_invocation\<lparr>terminal := True\<rparr>) ''textual-web.io'' ''defaults''
   \<and> terminal (demo_invocation\<lparr>terminal := True\<rparr>)
   \<and> add_terminal spec_host = registerTerminal \<and> app_count spec_host = pendingCount
   \<and> filter is_AddApp (trace (app spec_host (demo_invocation\<lparr>terminal := True\<rparr>))) = []
   \<and> client (app spec_host (demo_invocation\<lparr>terminal := True\<rparr>)) =
       Some [\<lparr>kind = InteractiveTerminal, label = ''Terminal'', command = ''/bin/zsh'',
              ident = ''7kq2m0xw9rtz''\<rparr>]"
proof -
  have flag: "terminal (demo_invocation\<lparr>terminal := True\<rparr>)"
    by simp
  have run: "filter is_AddApp (trace (app spec_host (demo_invocation\<lparr>terminal := True\<rparr>))) = []
      \<and> client (app spec_host (demo_invocation\<lparr>terminal := True\<rparr>)) =
          Some [\<lparr>kind = InteractiveTerminal, label = ''Terminal'', command = ''/bin/zsh'',
                 ident = ''7kq2m0xw9rtz''\<rparr>]"
    using terminal_session_precludes_default [OF spec_reaches flag spec_client_api]
    by (simp add: spec_clients dict_get_def demo_slug)
  show ?thesis
    using spec_reaches flag spec_client_api run by simp
qed

subsection \<open>A configuration that does not load\<close>

text \<open>
  What \<open>app\<close> does on a normal run with \<open>--config\<close> when \<open>load_config\<close> raises an
  instance of \<open>Exception\<close>. No client is built, no session registered and no event loop
  started. For a \<open>FileNotFoundError\<close> the run ends with the critical log line and
  returns. For any other exception the run ends with the call of \<open>error_console.print\<close>
  on a text that names the path and the exception, and returns if that call does; if
  the call raises, its exception leaves \<open>app\<close>.
\<close>

lemma config_failure_trace:
  assumes "get_environment h (environment i) = Inr env" and "\<not> signup i" and "\<not> welcome i"
    and "config i = Some p" and "load_config h (absolute h p) = Inl error"
    and "isinstance_Exception error"
  shows "client (app h i) = None
       \<and> filter is_client_call (trace (app h i)) = []
       \<and> filter is_session_call (trace (app h i)) = []
       \<and> filter is_runtime_call (trace (app h i)) = []
       \<and> trace (app h i) =
           GetEnvironment (environment i) # announce h env @
           [LogInfo [Lit ''loading config from '', ReprStr (absolute h p)],
            LoadConfig (absolute h p),
            if isinstance_FileNotFoundError error then LogCritical ''Config not found''
            else ErrorConsolePrint
                   [Lit ''Failed to load config from '', ReprStr (absolute h p), Lit ''; '',
                    ReprExn error]]
       \<and> outcome (app h i) =
           (if isinstance_FileNotFoundError error then Returned
            else case error_console_print h
                        [Lit ''Failed to load config from '', ReprStr (absolute h p), Lit ''; '',
                         ReprExn error] of
                   None \<Rightarrow> Returned
                 | Some raised \<Rightarrow> Raised raised)"
proof -
  have loading: "resolve_config h (config i) =
      ([LogInfo [Lit ''loading config from '', ReprStr (absolute h p)],
        LoadConfig (absolute h p),
        if isinstance_FileNotFoundError error then LogCritical ''Config not found''
        else ErrorConsolePrint
               [Lit ''Failed to load config from '', ReprStr (absolute h p), Lit ''; '',
                ReprExn error]],
       Inl (if isinstance_FileNotFoundError error then Returned
            else case error_console_print h
                        [Lit ''Failed to load config from '', ReprStr (absolute h p), Lit ''; '',
                         ReprExn error] of
                   None \<Rightarrow> Returned
                 | Some raised \<Rightarrow> Raised raised))"
    using assms(4-6) by (simp add: resolve_config_def Let_def split: option.split)
  have whole: "app h i =
      \<lparr>trace = GetEnvironment (environment i) # announce h env @ fst (resolve_config h (config i)),
       outcome = (if isinstance_FileNotFoundError error then Returned
            else case error_console_print h
                        [Lit ''Failed to load config from '', ReprStr (absolute h p), Lit ''; '',
                         ReprExn error] of
                   None \<Rightarrow> Returned
                 | Some raised \<Rightarrow> Raised raised),
       client = None\<rparr>"
    using assms(1-3) by (simp add: app_def normal_run_def loading)
  show ?thesis
    by (simp add: whole loading announce_calls)
qed

lemma demo_missing_config:
  "get_environment demo_host (environment (demo_invocation\<lparr>config := Some ''missing.toml''\<rparr>))
     = Inr ''textual-web.io''"
  "\<not> signup (demo_invocation\<lparr>config := Some ''missing.toml''\<rparr>)"
  "\<not> welcome (demo_invocation\<lparr>config := Some ''missing.toml''\<rparr>)"
  "config (demo_invocation\<lparr>config := Some ''missing.toml''\<rparr>) = Some ''missing.toml''"
  "load_config demo_host (absolute demo_host ''missing.toml'')
     = Inl (Exn FileNotFoundError ''/srv/missing.toml'')"
  "isinstance_Exception (Exn FileNotFoundError ''/srv/missing.toml'')"
  by (simp_all add: run_demo)

lemma demo_broken_config:
  "get_environment demo_host (environment (demo_invocation\<lparr>config := Some ''broken.toml''\<rparr>))
     = Inr ''textual-web.io''"
  "\<not> signup (demo_invocation\<lparr>config := Some ''broken.toml''\<rparr>)"
  "\<not> welcome (demo_invocation\<lparr>config := Some ''broken.toml''\<rparr>)"
  "config (demo_invocation\<lparr>config := Some ''broken.toml''\<rparr>) = Some ''broken.toml''"
  "load_config demo_host (absolute demo_host ''broken.toml'')
     = Inl (Exn (OtherException ''TOMLDecodeError'') ''Invalid value'')"
  "isinstance_Exception (Exn (OtherException ''TOMLDecodeError'') ''Invalid value'')"
  by (simp_all add: run_demo)

lemma demo_bracket_config:
  "get_environment demo_host (environment (demo_invocation\<lparr>config := Some ''conf[/b].toml''\<rparr>))
     = Inr ''textual-web.io''"
  "\<not> signup (demo_invocation\<lparr>config := Some ''conf[/b].toml''\<rparr>)"
  "\<not> welcome (demo_invocation\<lparr>config := Some ''conf[/b].toml''\<rparr>)"
  "config (demo_invocation\<lparr>config := Some ''conf[/b].toml''\<rparr>) = Some ''conf[/b].toml''"
  "load_config demo_host (absolute demo_host ''conf[/b].toml'')
     = Inl (Exn (OtherException ''TOMLDecodeError'') ''Invalid value'')"
  "isinstance_Exception (Exn (OtherException ''TOMLDecodeError'') ''Invalid value'')"
  by (simp_all add: run_demo)

lemma demo_console:
  "absolute demo_host ''missing.toml'' = ''/srv/missing.toml''"
  "absolute demo_host ''broken.toml'' = ''/srv/broken.toml''"
  "absolute demo_host ''conf[/b].toml'' = ''/srv/conf[/b].toml''"
  "error_console_print demo_host
     [Lit ''Failed to load config from '', ReprStr ''/srv/broken.toml'', Lit ''; '',
      ReprExn (Exn (OtherException ''TOMLDecodeError'') ''Invalid value'')] = None"
  "error_console_print demo_host
     [Lit ''Failed to load config from '', ReprStr ''/srv/conf[/b].toml'', Lit ''; '',
      ReprExn (Exn (OtherException ''TOMLDecodeError'') ''Invalid value'')]
     = Some (Exn (OtherException ''MarkupError'')
               ''closing tag [/b] at position 37 does not match any open tag'')"
  by (simp_all add: run_demo)

text \<open>The two kinds of failure where the console prints: both runs return.\<close>

lemma config_failure_returns:
  "outcome (app demo_host (demo_invocation\<lparr>config := Some ''missing.toml''\<rparr>)) = Returned
   \<and> last (trace (app demo_host (demo_invocation\<lparr>config := Some ''missing.toml''\<rparr>)))
       = LogCritical ''Config not found''
   \<and> outcome (app demo_host (demo_invocation\<lparr>config := Some ''broken.toml''\<rparr>)) = Returned
   \<and> last (trace (app demo_host (demo_invocation\<lparr>config := Some ''broken.toml''\<rparr>))) =
       ErrorConsolePrint
         [Lit ''Failed to load config from '', ReprStr ''/srv/broken.toml'', Lit ''; '',
          ReprExn (Exn (OtherException ''TOMLDecodeError'') ''Invalid value'')]"
  using config_failure_trace [OF demo_missing_config] config_failure_trace [OF demo_broken_config]
  by (simp add: demo_console)

text \<open>
  C4 does not hold of the code. The claim has every failure of \<open>load_config\<close> end in a
  normal return, and lines 123 to 130 set out to do so; but the text of line 129 goes
  through the markup of the console unescaped. With \<open>--config conf[/b].toml\<close> on a file
  that does not parse, \<open>load_config\<close> raises \<open>TOMLDecodeError\<close>, the handler calls
  \<open>error_console.print\<close>, the path brings the closing tag \<open>[/b]\<close> into the text, the
  console raises \<open>MarkupError\<close>, and that exception leaves \<open>app\<close>. The rest of the claim
  holds on that run: no client, no session, no event loop.
\<close>

theorem config_failure_print_raises:
  "load_config demo_host (absolute demo_host ''conf[/b].toml'')
     = Inl (Exn (OtherException ''TOMLDecodeError'') ''Invalid value'')
   \<and> last (trace (app demo_host (demo_invocation\<lparr>config := Some ''conf[/b].toml''\<rparr>))) =
       ErrorConsolePrint
         [Lit ''Failed to load config from '', ReprStr ''/srv/conf[/b].toml'', Lit ''; '',
          ReprExn (Exn (OtherException ''TOMLDecodeError'') ''Invalid value'')]
   \<and> outcome (app demo_host (demo_invocation\<lparr>config := Some ''conf[/b].toml''\<rparr>))
       = Raised (Exn (OtherException ''MarkupError'')
                   ''closing tag [/b] at position 37 does not match any open tag'')
   \<and> client (app demo_host (demo_invocation\<lparr>config := Some ''conf[/b].toml''\<rparr>)) = None
   \<and> filter is_session_call
       (trace (app demo_host (demo_invocation\<lparr>config := Some ''conf[/b].toml''\<rparr>))) = []
   \<and> filter is_runtime_call
       (trace (app demo_host (demo_invocation\<lparr>config := Some ''conf[/b].toml''\<rparr>))) = []"
  using config_failure_trace [OF demo_bracket_config] demo_bracket_config(5)
  by (simp add: demo_console announce_calls)

subsection \<open>The event loop section\<close>


lemma app_runtime_calls:
  assumes "reaches_client h i env cfg"
  shows "filter is_runtime_call (trace (app h i)) = fst (start_runtime h (client_seeded h i env cfg))"
    and "filter drives_run (trace (app h i))
           = filter drives_run (fst (start_runtime h (client_seeded h i env cfg)))"
  by (simp_all add: app_reaches_client [OF assms] section_calls)

lemma app_ends_with_runtime:
  assumes "reaches_client h i env cfg"
  shows "\<exists>before. trace (app h i) = before @ fst (start_runtime h (client_seeded h i env cfg))
           \<and> filter is_runtime_call before = []"
proof (intro exI conjI)
  show "trace (app h i) =
      (GetEnvironment (environment i) # announce h env @ fst (resolve_config h (config i))
       @ (if DEBUG h then [RichPrint cfg] else [])
       @ [NewGanglionClient (str_or (config i) ''./'') cfg env (str_or_None (api_key i))]
       @ fst (register_terminal h (terminal i) (client_built h i env cfg))
       @ fst (seed_default h (client_after_terminal h i env cfg)))
      @ fst (start_runtime h (client_seeded h i env cfg))"
    by (simp add: app_reaches_client [OF assms])
  show "filter is_runtime_call
      (GetEnvironment (environment i) # announce h env @ fst (resolve_config h (config i))
       @ (if DEBUG h then [RichPrint cfg] else [])
       @ [NewGanglionClient (str_or (config i) ''./'') cfg env (str_or_None (api_key i))]
       @ fst (register_terminal h (terminal i) (client_built h i env cfg))
       @ fst (seed_default h (client_after_terminal h i env cfg))) = []"
    by (simp add: section_calls)
qed

lemma demo_runtimes:
  "reaches_client (demo_host\<lparr>import_uvloop := None\<rparr>) demo_invocation
     ''textual-web.io'' ''defaults''"
  "reaches_client (demo_host\<lparr>import_uvloop := None, version_info := (3, 10)\<rparr>) demo_invocation
     ''textual-web.io'' ''defaults''"
  "reaches_client (demo_host\<lparr>import_uvloop := Some (Exn (OtherException ''RuntimeError'') ''boom'')\<rparr>)
     demo_invocation ''textual-web.io'' ''defaults''"
  by (simp_all add: run_demo)

lemma demo_probe:
  "import_uvloop demo_host = Some (Exn ModuleNotFoundError ''uvloop'')"
  "isinstance_ImportError (Exn ModuleNotFoundError ''uvloop'')"
  "import_uvloop (demo_host\<lparr>import_uvloop := None\<rparr>) = None"
  "version_info_ge_3_11 (version_info (demo_host\<lparr>import_uvloop := None\<rparr>))"
  "import_uvloop (demo_host\<lparr>import_uvloop := None, version_info := (3, 10)\<rparr>) = None"
  "\<not> version_info_ge_3_11 (version_info (demo_host\<lparr>import_uvloop := None, version_info := (3, 10)\<rparr>))"
  by (simp_all add: demo_host_def host_around_def version_info_ge_3_11_def)





text \<open>
  The runner is left when \<open>run()\<close> raises: on Python 3.12 with \<open>uvloop\<close> installed and a
  \<open>run()\<close> that raises \<open>ConnectionError\<close>, the exit of the \<open>with\<close> block is still in the
  trace and the exception leaves \<open>app\<close>.
\<close>

lemma runner_is_left_when_run_raises:
  "filter is_runtime_call
     (trace (app (demo_host\<lparr>import_uvloop := None,
                   run := \<lambda>c. Some (Exn (OtherException ''ConnectionError'') ''refused'')\<rparr>)
        demo_invocation))
     = [ImportUvloop, RunnerEnter, RunnerRun, RunnerExit]
   \<and> outcome (app (demo_host\<lparr>import_uvloop := None,
                   run := \<lambda>c. Some (Exn (OtherException ''ConnectionError'') ''refused'')\<rparr>)
        demo_invocation)
     = Raised (Exn (OtherException ''ConnectionError'') ''refused'')"
proof -
  have reached: "reaches_client
      (demo_host\<lparr>import_uvloop := None,
                 run := \<lambda>c. Some (Exn (OtherException ''ConnectionError'') ''refused'')\<rparr>)
      demo_invocation ''textual-web.io'' ''defaults''"
    by (simp add: run_demo)
  have recent: "version_info_ge_3_11 (version_info demo_host)"
    by (simp add: demo_host_def host_around_def version_info_ge_3_11_def)
  show ?thesis
    by (simp add: app_runtime_calls [OF reached] app_reaches_client(2) [OF reached]
        start_runtime_def run_outcome_def recent)
qed

text \<open>
  C6, as stated, fails: only \<open>ImportError\<close> is caught on line 154. On a host where
  \<open>import uvloop\<close> raises a \<open>RuntimeError\<close>, the exception leaves \<open>app\<close> and \<open>run()\<close> is
  never driven.
\<close>

theorem probe_failure_counterexample:
  "outcome (app (demo_host\<lparr>import_uvloop := Some (Exn (OtherException ''RuntimeError'') ''boom'')\<rparr>)
      demo_invocation) = Raised (Exn (OtherException ''RuntimeError'') ''boom'')
   \<and> filter drives_run
       (trace (app (demo_host\<lparr>import_uvloop := Some (Exn (OtherException ''RuntimeError'') ''boom'')\<rparr>)
          demo_invocation)) = []"
  by (simp add: app_reaches_client [OF demo_runtimes(3)] section_calls start_runtime_def)

text \<open>
  C6, amended. On a normal run that has built its client, when \<open>import uvloop\<close> raises
  an instance of \<open>ImportError\<close> (a missing module raises its subclass
  \<open>ModuleNotFoundError\<close>; any other subclass counts too), nothing is logged or printed: the
  import is followed by \<open>asyncio.run\<close> at once, and the run ends the way \<open>run()\<close> ends.
  An exception raised by the import that is not an instance of \<open>ImportError\<close> is not
  caught: it leaves \<open>app\<close>, and the import is the last thing the run did.
\<close>

theorem import_error_falls_back_silently:
  assumes "reaches_client h i env cfg" and "import_uvloop h = Some error"
  shows "(isinstance_ImportError error \<longrightarrow>
            (\<exists>before. trace (app h i) = before @ [ImportUvloop, AsyncioRun]
                     \<and> filter is_runtime_call before = [])
          \<and> outcome (app h i) = run_outcome (run h (client_seeded h i env cfg)))
       \<and> (\<not> isinstance_ImportError error \<longrightarrow>
            (\<exists>before. trace (app h i) = before @ [ImportUvloop]
                     \<and> filter is_runtime_call before = [])
          \<and> outcome (app h i) = Raised error)"
proof (cases "isinstance_ImportError error")
  case True
  then have "start_runtime h (client_seeded h i env cfg)
      = ([ImportUvloop, AsyncioRun], run_outcome (run h (client_seeded h i env cfg)))"
    using assms(2) by (simp add: start_runtime_def)
  then show ?thesis
    using True app_ends_with_runtime [OF assms(1)] by (simp add: app_reaches_client(2) [OF assms(1)])
next
  case False
  then have "start_runtime h (client_seeded h i env cfg) = ([ImportUvloop], Raised error)"
    using assms(2) by (simp add: start_runtime_def)
  then show ?thesis
    using False app_ends_with_runtime [OF assms(1)] by (simp add: app_reaches_client(2) [OF assms(1)])
qed

lemma demo_zip_probe:
  "reaches_client
     (demo_host\<lparr>import_uvloop := Some (Exn (SubImportError ''ZipImportError'') ''bad archive'')\<rparr>)
     demo_invocation ''textual-web.io'' ''defaults''"
  "import_uvloop
     (demo_host\<lparr>import_uvloop := Some (Exn (SubImportError ''ZipImportError'') ''bad archive'')\<rparr>)
     = Some (Exn (SubImportError ''ZipImportError'') ''bad archive'')"
  "isinstance_ImportError (Exn (SubImportError ''ZipImportError'') ''bad archive'')"
  by (simp_all add: run_demo)

theorem import_error_falls_back_silently_witness:
  "reaches_client demo_host demo_invocation ''textual-web.io'' ''defaults''
   \<and> import_uvloop demo_host = Some (Exn ModuleNotFoundError ''uvloop'')
   \<and> isinstance_ImportError (Exn ModuleNotFoundError ''uvloop'')
   \<and> (\<exists>before. trace (app demo_host demo_invocation) = before @ [ImportUvloop, AsyncioRun]
                \<and> filter is_runtime_call before = [])
   \<and> outcome (app demo_host demo_invocation) = Returned
   \<and> isinstance_ImportError (Exn (SubImportError ''ZipImportError'') ''bad archive'')
   \<and> (\<exists>before.
         trace (app (demo_host\<lparr>import_uvloop :=
                       Some (Exn (SubImportError ''ZipImportError'') ''bad archive'')\<rparr>)
                  demo_invocation) = before @ [ImportUvloop, AsyncioRun]
         \<and> filter is_runtime_call before = [])"
proof -
  have quiet: "(\<exists>before. trace (app demo_host demo_invocation) = before @ [ImportUvloop, AsyncioRun]
                \<and> filter is_runtime_call before = [])
      \<and> outcome (app demo_host demo_invocation)
          = run_outcome (run demo_host (client_seeded demo_host demo_invocation
              ''textual-web.io'' ''defaults''))"
    using import_error_falls_back_silently [OF demo_reaches(1) demo_probe(1)] demo_probe(2)
    by blast
  have returns: "run_outcome (run demo_host (client_seeded demo_host demo_invocation
      ''textual-web.io'' ''defaults'')) = Returned"
    by (simp add: run_outcome_def demo_host_def host_around_def)
  have zipped: "\<exists>before.
      trace (app (demo_host\<lparr>import_uvloop :=
                    Some (Exn (SubImportError ''ZipImportError'') ''bad archive'')\<rparr>)
               demo_invocation) = before @ [ImportUvloop, AsyncioRun]
      \<and> filter is_runtime_call before = []"
    using import_error_falls_back_silently [OF demo_zip_probe(1,2)] demo_zip_probe(3)
    by blast
  show ?thesis
    using demo_reaches(1) demo_probe(1,2) demo_zip_probe(3) quiet returns zipped by simp
qed

subsection \<open>Lowercasing\<close>

lemma lower_char_not_upper: "\<not> is_upper (lower_char c)"
proof (cases "is_upper c")
  case True
  then have "(of_char (char_of ((of_char c :: nat) + 32)) :: nat) = of_char c + 32"
    by (simp add: is_upper_def)
  with True show ?thesis
    by (simp add: lower_char_def is_upper_def)
next
  case False
  then show ?thesis
    by (simp add: lower_char_def)
qed

lemma lower_no_upper: "\<forall>c \<in> set (lower s). \<not> is_upper c"
  by (simp add: lower_def lower_char_not_upper)

lemma lower_length: "length (lower s) = length s"
  by (simp add: lower_def)

lemma app_terminal_calls:
  assumes "reaches_client h i env cfg"
  shows "filter is_AddTerminal (trace (app h i))
           = filter is_AddTerminal (fst (register_terminal h (terminal i) (client_built h i env cfg)))"
    and "filter is_generate_call (trace (app h i))
           = filter is_generate_call (fst (register_terminal h (terminal i) (client_built h i env cfg)))"
    and "shell_commands (trace (app h i))
           = shell_commands (fst (register_terminal h (terminal i) (client_built h i env cfg)))"
proof -
  show "filter is_AddTerminal (trace (app h i))
      = filter is_AddTerminal (fst (register_terminal h (terminal i) (client_built h i env cfg)))"
    by (simp add: app_reaches_client [OF assms] section_calls)
  show "filter is_generate_call (trace (app h i))
      = filter is_generate_call (fst (register_terminal h (terminal i) (client_built h i env cfg)))"
    by (simp add: app_reaches_client [OF assms] section_calls)
  have split: "shell_commands (xs @ ys) = shell_commands xs @ shell_commands ys"
    for xs ys :: "('b, 'c) event list"
    by (induction xs rule: shell_commands.induct) simp_all
  have none: "shell_commands (announce h env) = []"
    "shell_commands (fst (resolve_config h (config i))) = []"
    "shell_commands (fst (seed_default h (client_after_terminal h i env cfg))) = []"
    by (simp_all add: announce_def resolve_config_def seed_default_def Let_def
        split: option.split sum.split)
  from split none show "shell_commands (trace (app h i))
      = shell_commands (fst (register_terminal h (terminal i) (client_built h i env cfg)))"
    by (simp add: app_reaches_client [OF assms] section_calls)
qed

lemma demo_terminal:
  "terminal (demo_invocation\<lparr>terminal := True\<rparr>)"
  "environ demo_host ''SHELL'' = Some ''/bin/zsh''"
  "generate demo_host = ''7KQ2M0XW9RTZ''"
  "generate demo_host \<noteq> []"
  by (simp_all add: demo_host_def host_around_def)

lemma demo_no_shell:
  "reaches_client (demo_host\<lparr>environ := Map.empty\<rparr>) (demo_invocation\<lparr>terminal := True\<rparr>)
     ''textual-web.io'' ''defaults''"
  "environ (demo_host\<lparr>environ := Map.empty\<rparr>) ''SHELL'' = None"
  "generate (demo_host\<lparr>environ := Map.empty\<rparr>) = ''7KQ2M0XW9RTZ''"
  by (simp_all add: run_demo)

text \<open>
  C7. With \<open>--terminal\<close>, on a normal run that has built its client, \<open>add_terminal\<close> is
  called exactly once, with the name \<open>Terminal\<close>, the value of \<open>SHELL\<close> in the process
  environment (\<open>bin/sh\<close> when it is not set) and the lowercased result of one call of
  \<open>identity.generate()\<close>. The identifier has no uppercase letter and is as long as what
  the generator returned, hence not empty when that is not empty.
\<close>

theorem terminal_session_registration:
  assumes "reaches_client h i env cfg" and "terminal i"
  shows "filter is_AddTerminal (trace (app h i)) =
           [AddTerminal ''Terminal''
              (case environ h ''SHELL'' of None \<Rightarrow> ''bin/sh'' | Some shell \<Rightarrow> shell)
              (lower (generate h))]
       \<and> filter is_generate_call (trace (app h i)) = [IdentityGenerate]
       \<and> client_after_terminal h i env cfg =
           add_terminal h (client_built h i env cfg) ''Terminal''
             (case environ h ''SHELL'' of None \<Rightarrow> ''bin/sh'' | Some shell \<Rightarrow> shell)
             (lower (generate h))
       \<and> (\<forall>c \<in> set (lower (generate h)). \<not> is_upper c)
       \<and> length (lower (generate h)) = length (generate h)
       \<and> (generate h \<noteq> [] \<longrightarrow> lower (generate h) \<noteq> [])"
proof -
  have registered: "register_terminal h (terminal i) (client_built h i env cfg) =
      ([IdentityGenerate,
        AddTerminal ''Terminal''
          (case environ h ''SHELL'' of None \<Rightarrow> ''bin/sh'' | Some shell \<Rightarrow> shell)
          (lower (generate h))],
       add_terminal h (client_built h i env cfg) ''Terminal''
         (case environ h ''SHELL'' of None \<Rightarrow> ''bin/sh'' | Some shell \<Rightarrow> shell)
         (lower (generate h)))"
    using assms(2) by (simp add: register_terminal_def dict_get_def Let_def)
  have nonempty: "generate h \<noteq> [] \<longrightarrow> lower (generate h) \<noteq> []"
    by (simp add: lower_def)
  show ?thesis
    using lower_no_upper [of "generate h"] lower_length [of "generate h"] nonempty
    by (simp add: app_terminal_calls [OF assms(1)] client_after_terminal_def registered)
qed

theorem terminal_session_registration_witness:
  "reaches_client demo_host (demo_invocation\<lparr>terminal := True\<rparr>) ''textual-web.io'' ''defaults''
   \<and> terminal (demo_invocation\<lparr>terminal := True\<rparr>)
   \<and> generate demo_host \<noteq> []
   \<and> filter is_AddTerminal (trace (app demo_host (demo_invocation\<lparr>terminal := True\<rparr>)))
       = [AddTerminal ''Terminal'' ''/bin/zsh'' ''7kq2m0xw9rtz'']
   \<and> filter is_generate_call (trace (app demo_host (demo_invocation\<lparr>terminal := True\<rparr>)))
       = [IdentityGenerate]
   \<and> lower (generate demo_host) \<noteq> []"
proof -
  have called: "filter is_AddTerminal (trace (app demo_host (demo_invocation\<lparr>terminal := True\<rparr>)))
        = [AddTerminal ''Terminal'' ''/bin/zsh'' ''7kq2m0xw9rtz'']
      \<and> filter is_generate_call (trace (app demo_host (demo_invocation\<lparr>terminal := True\<rparr>)))
        = [IdentityGenerate]
      \<and> lower (generate demo_host) \<noteq> []"
    using terminal_session_registration [OF demo_reaches(2) demo_terminal(1)] demo_terminal(4)
    by (simp add: demo_terminal(2,3) demo_slug)
  show ?thesis
    using demo_reaches(2) demo_terminal(1,4) called by simp
qed

text \<open>
  C9. With \<open>--terminal\<close>, on a normal run that has built its client in a process
  environment without \<open>SHELL\<close>, the one terminal registered has the command \<open>bin/sh\<close>:
  a relative path, which is not \<open>/bin/sh\<close>.
\<close>

theorem default_shell_is_relative:
  assumes "reaches_client h i env cfg" and "terminal i" and "environ h ''SHELL'' = None"
  shows "filter is_AddTerminal (trace (app h i))
           = [AddTerminal ''Terminal'' ''bin/sh'' (lower (generate h))]
       \<and> shell_commands (trace (app h i)) = [''bin/sh'']
       \<and> (\<forall>shell \<in> set (shell_commands (trace (app h i))).
             \<not> isabs shell \<and> shell \<noteq> ''/bin/sh'')
       \<and> client_after_terminal h i env cfg =
           add_terminal h (client_built h i env cfg) ''Terminal'' ''bin/sh'' (lower (generate h))"
  using assms(2,3)
  by (simp add: app_terminal_calls [OF assms(1)] client_after_terminal_def register_terminal_def
      dict_get_def Let_def isabs_def)

theorem default_shell_is_relative_witness:
  "reaches_client (demo_host\<lparr>environ := Map.empty\<rparr>) (demo_invocation\<lparr>terminal := True\<rparr>)
     ''textual-web.io'' ''defaults''
   \<and> terminal (demo_invocation\<lparr>terminal := True\<rparr>)
   \<and> environ (demo_host\<lparr>environ := Map.empty\<rparr>) ''SHELL'' = None
   \<and> filter is_AddTerminal
       (trace (app (demo_host\<lparr>environ := Map.empty\<rparr>) (demo_invocation\<lparr>terminal := True\<rparr>)))
       = [AddTerminal ''Terminal'' ''bin/sh'' ''7kq2m0xw9rtz'']
   \<and> shell_commands
       (trace (app (demo_host\<lparr>environ := Map.empty\<rparr>) (demo_invocation\<lparr>terminal := True\<rparr>)))
       = [''bin/sh'']"
proof -
  have called: "filter is_AddTerminal
        (trace (app (demo_host\<lparr>environ := Map.empty\<rparr>) (demo_invocation\<lparr>terminal := True\<rparr>)))
        = [AddTerminal ''Terminal'' ''bin/sh'' ''7kq2m0xw9rtz'']
      \<and> shell_commands
        (trace (app (demo_host\<lparr>environ := Map.empty\<rparr>) (demo_invocation\<lparr>terminal := True\<rparr>)))
        = [''bin/sh'']"
    using default_shell_is_relative [OF demo_no_shell(1) demo_terminal(1) demo_no_shell(2)]
    by (simp add: demo_no_shell(3) demo_slug)
  show ?thesis
    using demo_no_shell(1,2) demo_terminal(1) called by simp
qed

subsection \<open>The calls of \<open>app\<close> on any run\<close>

lemma seed_default_AddApp:
  "filter is_AddApp (fst (seed_default h c)) =
     (if app_count h c = 0 then [AddApp ''Welcome'' ''textual-web --welcome'' ''welcome''] else [])"
  by (simp add: seed_default_def)

lemma normal_run_AddApp:
  "filter is_AddApp (trace (normal_run h i env)) = []
   \<or> filter is_AddApp (trace (normal_run h i env))
       = [AddApp ''Welcome'' ''textual-web --welcome'' ''welcome'']"
  by (simp add: trace_normal_run section_calls seed_default_AddApp split: sum.split)

lemma app_AddApp:
  "filter is_AddApp (trace (app h i)) = []
   \<or> filter is_AddApp (trace (app h i)) = [AddApp ''Welcome'' ''textual-web --welcome'' ''welcome'']"
  using normal_run_AddApp [of h i]
  by (simp add: app_def Let_def split: sum.split)

lemma normal_run_no_resolution:
  "filter is_resolution_call (trace (normal_run h i env)) = []"
  by (simp add: trace_normal_run section_calls split: sum.split)

lemma app_resolution:
  "filter is_resolution_call (trace (app h i)) = [GetEnvironment (environment i)]"
  using normal_run_no_resolution [of h i]
  by (simp add: app_def Let_def split: sum.split)

text \<open>
  C10. Whatever the host and the options, the only application \<open>app\<close> ever registers is
  the one with the name \<open>Welcome\<close>, the command \<open>textual-web --welcome\<close> and the identifier
  \<open>welcome\<close>: the three are literals of line 150 and do not depend on what the identity
  generator returns. On a normal run that has built its client and finds the count at
  zero, that application is registered.
\<close>

theorem default_application_is_constant:
  "(\<forall>e \<in> set (trace (app h i)).
      is_AddApp e \<longrightarrow> e = AddApp ''Welcome'' ''textual-web --welcome'' ''welcome'')
   \<and> (reaches_client h i env cfg \<and> app_count h (client_after_terminal h i env cfg) = 0 \<longrightarrow>
        filter is_AddApp (trace (app h i))
          = [AddApp ''Welcome'' ''textual-web --welcome'' ''welcome'']
      \<and> client (app h i) =
          Some (add_app h (client_after_terminal h i env cfg)
                  ''Welcome'' ''textual-web --welcome'' ''welcome''))"
proof (intro conjI ballI impI)
  fix e
  assume "e \<in> set (trace (app h i))" and "is_AddApp e"
  then have member: "e \<in> set (filter is_AddApp (trace (app h i)))"
    by simp
  from app_AddApp [of h i] show "e = AddApp ''Welcome'' ''textual-web --welcome'' ''welcome''"
  proof
    assume "filter is_AddApp (trace (app h i)) = []"
    with member show ?thesis
      by (metis empty_iff empty_set)
  next
    assume "filter is_AddApp (trace (app h i))
        = [AddApp ''Welcome'' ''textual-web --welcome'' ''welcome'']"
    with member show ?thesis
      by (metis empty_iff empty_set set_ConsD)
  qed
next
  assume run: "reaches_client h i env cfg \<and> app_count h (client_after_terminal h i env cfg) = 0"
  then have reached: "reaches_client h i env cfg"
    and zero: "app_count h (client_after_terminal h i env cfg) = 0"
    by simp_all
  show "filter is_AddApp (trace (app h i))
      = [AddApp ''Welcome'' ''textual-web --welcome'' ''welcome'']"
    by (simp add: app_reaches_client [OF reached] section_calls seed_default_AddApp zero)
  show "client (app h i) =
      Some (add_app h (client_after_terminal h i env cfg)
              ''Welcome'' ''textual-web --welcome'' ''welcome'')"
    by (simp add: app_reaches_client [OF reached] client_seeded_def seed_default_def zero)
qed

theorem default_application_is_constant_witness:
  "reaches_client demo_host demo_invocation ''textual-web.io'' ''defaults''
   \<and> app_count demo_host (client_after_terminal demo_host demo_invocation
         ''textual-web.io'' ''defaults'') = 0
   \<and> generate demo_host = ''7KQ2M0XW9RTZ''
   \<and> filter is_AddApp (trace (app demo_host demo_invocation))
       = [AddApp ''Welcome'' ''textual-web --welcome'' ''welcome'']
   \<and> client (app demo_host demo_invocation) = Some [''welcome'']"
proof -
  have zero: "app_count demo_host (client_after_terminal demo_host demo_invocation
      ''textual-web.io'' ''defaults'') = 0"
    by (simp add: demo_clients)
  have seeded: "filter is_AddApp (trace (app demo_host demo_invocation))
        = [AddApp ''Welcome'' ''textual-web --welcome'' ''welcome'']
      \<and> client (app demo_host demo_invocation) = Some [''welcome'']"
    using default_application_is_constant [of demo_host demo_invocation "''textual-web.io''"
        "''defaults''", THEN conjunct2] demo_reaches(1) zero
    by (simp add: demo_clients)
  show ?thesis
    using demo_reaches(1) zero demo_terminal(3) seeded by simp
qed

subsection \<open>The registry\<close>

lemma resolve_registered:
  assumes "name \<in> fst ` set registry"
  shows "\<exists>d. resolve registry name = Inr d \<and> map_of registry name = Some d"
proof -
  from assms have "map_of registry name \<noteq> None"
    by (simp add: map_of_eq_None_iff)
  then show ?thesis
    by (auto simp add: resolve_def)
qed

lemma app_resolves_its_argument:
  assumes "GetEnvironment name \<in> set (trace (app h i))"
  shows "name = environment i"
proof -
  from assms have "GetEnvironment name \<in> set (filter is_resolution_call (trace (app h i)))"
    by simp
  then show ?thesis
    by (simp only: app_resolution list.set insert_iff empty_iff event.inject simp_thms)
qed

lemma registry_host_api:
  "get_environment registry_host = resolve (ENVIRONMENTS registry_host)"
  "ENVIRONMENTS registry_host = [(''prod'', ''textual-web.io''), (''local'', ''127.0.0.1''),
                      (''dev'', ''textual-web-dev.io'')]"
  "ENVIRONMENT registry_host = ''prod''"
  by (simp_all add: registry_host_def spec_host_def host_around_def)

text \<open>
  C8. With the resolver of the specification (a lookup in the registry): the command
  calls the resolver only on names that are keys of the registry, and the resolver
  returns a descriptor on each such call. A name that is not a key is rejected by
  \<open>click.Choice\<close> with a usage error before anything of \<open>app\<close> has run. For every key
  the resolver returns the descriptor the registry holds, and it depends on nothing
  but the registry and the name.
\<close>

theorem resolution_only_on_registered_names:
  assumes "get_environment h = resolve (ENVIRONMENTS h)"
  shows "(\<forall>name. GetEnvironment name \<in> set (trace (app_command h a)) \<longrightarrow>
            name \<in> fst ` set (ENVIRONMENTS h) \<and> (\<exists>d. get_environment h name = Inr d))
       \<and> (requested_environment h a \<notin> fst ` set (ENVIRONMENTS h) \<longrightarrow>
            app_command h a =
              \<lparr>trace = [], outcome = BadParameter (requested_environment h a), client = None\<rparr>)
       \<and> (\<forall>name \<in> fst ` set (ENVIRONMENTS h).
            \<exists>d. get_environment h name = Inr d \<and> map_of (ENVIRONMENTS h) name = Some d)
       \<and> (\<forall>h'. ENVIRONMENTS h' = ENVIRONMENTS h \<and> get_environment h' = resolve (ENVIRONMENTS h')
            \<longrightarrow> get_environment h' = get_environment h)"
proof (intro conjI allI ballI impI)
  fix name
  assume called: "GetEnvironment name \<in> set (trace (app_command h a))"
  show "name \<in> fst ` set (ENVIRONMENTS h)"
  proof (cases "requested_environment h a \<in> fst ` set (ENVIRONMENTS h)")
    case True
    with called have "name = requested_environment h a"
      by (auto simp add: app_command_def click_Choice_def dest: app_resolves_its_argument)
    with True show ?thesis
      by simp
  next
    case False
    with called show ?thesis
      by (simp add: app_command_def click_Choice_def)
  qed
  then show "\<exists>d. get_environment h name = Inr d"
    using resolve_registered [of name "ENVIRONMENTS h"] assms by auto
next
  assume "requested_environment h a \<notin> fst ` set (ENVIRONMENTS h)"
  then show "app_command h a =
      \<lparr>trace = [], outcome = BadParameter (requested_environment h a), client = None\<rparr>"
    by (simp add: app_command_def click_Choice_def)
next
  fix name
  assume "name \<in> fst ` set (ENVIRONMENTS h)"
  then show "\<exists>d. get_environment h name = Inr d \<and> map_of (ENVIRONMENTS h) name = Some d"
    using resolve_registered [of name "ENVIRONMENTS h"] assms by simp
next
  fix h'
  assume "ENVIRONMENTS h' = ENVIRONMENTS h \<and> get_environment h' = resolve (ENVIRONMENTS h')"
  then show "get_environment h' = get_environment h"
    using assms by simp
qed

theorem resolution_only_on_registered_names_witness:
  "get_environment registry_host = resolve (ENVIRONMENTS registry_host)
   \<and> requested_environment registry_host (demo_command_line\<lparr>opt_environment := Some ''Prod''\<rparr>)
       = ''Prod''
   \<and> app_command registry_host (demo_command_line\<lparr>opt_environment := Some ''Prod''\<rparr>)
       = \<lparr>trace = [], outcome = BadParameter ''Prod'', client = None\<rparr>
   \<and> get_environment registry_host ''dev'' = Inr ''textual-web-dev.io''
   \<and> requested_environment registry_host demo_command_line = ''prod''"
proof -
  have asked: "requested_environment registry_host
      (demo_command_line\<lparr>opt_environment := Some ''Prod''\<rparr>) = ''Prod''"
    "requested_environment registry_host demo_command_line = ''prod''"
    by (simp_all add: requested_environment_def demo_command_line_def registry_host_api)
  have rejected: "app_command registry_host (demo_command_line\<lparr>opt_environment := Some ''Prod''\<rparr>)
      = \<lparr>trace = [], outcome = BadParameter ''Prod'', client = None\<rparr>"
    using resolution_only_on_registered_names [OF registry_host_api(1), THEN conjunct2,
        THEN conjunct1, of "demo_command_line\<lparr>opt_environment := Some ''Prod''\<rparr>"]
    by (simp add: asked registry_host_api(2))
  have "\<exists>d. get_environment registry_host ''dev'' = Inr d
      \<and> map_of (ENVIRONMENTS registry_host) ''dev'' = Some d"
    using resolution_only_on_registered_names [OF registry_host_api(1), THEN conjunct2,
        THEN conjunct2, THEN conjunct1]
    by (simp add: registry_host_api(2))
  then have found: "get_environment registry_host ''dev'' = Inr ''textual-web-dev.io''"
    by (auto simp add: registry_host_api(2))
  show ?thesis
    using registry_host_api(1) asked rejected found by simp
qed

end
